theory Spec2Isabelle
  imports Complex_Main "HOL-Library.Word"
begin

section \<open>JavaScript strings\<close>

text \<open>
  A JavaScript string is a sequence of UTF-16 code units; it is modelled as the list of
  their numeric values. \<open>str\<close> turns an ASCII literal into such a list.
\<close>

type_synonym jsstring = "nat list"

definition str :: "string \<Rightarrow> jsstring" where
  "str s = map of_char s"

text \<open>
  \<open>String.prototype.trim\<close> removes leading and trailing WhiteSpace and LineTerminator
  code points (ECMA-262, 22.1.3.32): TAB, LF, VT, FF, CR, SPACE, NBSP, U+1680,
  U+2000..U+200A, U+2028, U+2029, U+202F, U+205F, U+3000 and U+FEFF. All of them lie in
  the basic plane, so the test is one on code units.
\<close>

definition isWhiteSpace :: "nat \<Rightarrow> bool" where
  "isWhiteSpace c =
     (List.member [9, 10, 11, 12, 13, 32, 160, 5760, 8232, 8233, 8239, 8287, 12288, 65279] c
      \<or> (8192 \<le> c \<and> c \<le> 8202))"

definition js_trim :: "jsstring \<Rightarrow> jsstring" where
  "js_trim s = rev (dropWhile isWhiteSpace (rev (dropWhile isWhiteSpace s)))"

text \<open>\<open>haystack.includes(needle)\<close>: the needle occurs as a contiguous run.\<close>

fun startsWith :: "jsstring \<Rightarrow> jsstring \<Rightarrow> bool" where
  "startsWith hay [] = True"
| "startsWith [] (n # ns) = False"
| "startsWith (h # hs) (n # ns) = (h = n \<and> startsWith hs ns)"

fun includes_js :: "jsstring \<Rightarrow> jsstring \<Rightarrow> bool" where
  "includes_js [] needle = (needle = [])"
| "includes_js (h # hs) needle = (startsWith (h # hs) needle \<or> includes_js hs needle)"

section \<open>Values thrown and awaited\<close>

text \<open>
  A thrown value is either an \<open>Error\<close> object, of which the code reads \<open>message\<close>, or
  anything else (\<open>e instanceof Error\<close> is false). An awaited promise either resolves,
  with the text the code reads from the result (empty where it reads none), or rejects
  with a thrown value.
\<close>

datatype thrown = Error jsstring | NonError

datatype outcome = Resolved jsstring | Rejected thrown

section \<open>Data model\<close>

text \<open>
  The enum \<open>RecordingState\<close> and the interfaces \<open>HistoryEntry\<close> and \<open>Language\<close> of the
  module \<open>types\<close>. The fields of \<open>HistoryEntry\<close> carry the prefix \<open>e_\<close>, since the
  application state has fields of the same names.
\<close>

datatype RecordingState =
  IDLE | REQUESTING_PERMISSION | RECORDING | STOPPING | TRANSLATING | ERROR

record HistoryEntry =
  e_id :: jsstring
  e_timestamp :: jsstring
  e_transcribedText :: jsstring
  e_translatedText :: jsstring
  e_targetLanguage :: jsstring

text \<open>The argument of \<open>saveToHistory\<close>: \<open>Omit<HistoryEntry, 'id' | 'timestamp'>\<close>.\<close>

record EntryInput =
  i_transcribedText :: jsstring
  i_translatedText :: jsstring
  i_targetLanguage :: jsstring

text \<open>
  The table \<open>TARGET_LANGUAGES\<close> of the module \<open>constants\<close> is not among the sources:
  every function that reads it takes it as a parameter, a list of \<open>Language\<close>.
\<close>

record Language =
  code :: jsstring
  name :: jsstring

section \<open>Application state\<close>

text \<open>
  Every effect on the outside world is appended to a log (the field \<open>effects\<close>), in the
  order the code performs it, so that "no side effect", "exactly one request" and "in
  this order" can be stated.
\<close>

datatype effect =
    SetRecordingState RecordingState
  | GetUserMedia
  | LiveConnect
  | SendRealtimeInput jsstring jsstring
  | SessionClose
  | TrackStop
  | ScriptProcessorDisconnect
  | MediaStreamSourceDisconnect
  | AudioContextClose
  | GenerateContent jsstring
  | StorageSetItem "HistoryEntry list"
  | PlayerPause
  | ConsoleError jsstring

text \<open>The \<open>state\<close> attribute of an \<open>AudioContext\<close>.\<close>

datatype AudioContextState = Suspended | Running | Closed

text \<open>
  An \<open>async\<close> function runs synchronously up to its first \<open>await\<close>; what is left is a
  continuation that resumes when the awaited promise settles. The continuation carries
  the variables of the closure it still reads.
\<close>

datatype cont =
    K_startRecording
  | K_stopRecording_session jsstring
  | K_stopRecording_close jsstring
  | K_translateText jsstring jsstring

text \<open>
  The fields are, in this order: the React state of \<open>App\<close> (\<open>useState\<close>); its refs
  (\<open>useRef\<close>; True where the ref holds an object, False where it is \<open>null\<close>); and the
  world around it: the item stored under \<open>'transcriptionHistory'\<close> in \<open>localStorage\<close> (the
  list itself stands for its JSON text), whether \<open>setItem\<close> succeeds, the suspended
  continuations, and the log of effects.
\<close>

record app =
  recordingState :: RecordingState
  transcribedText :: jsstring
  translatedText :: jsstring
  targetLanguage :: jsstring
  history :: "HistoryEntry list"
  error :: "jsstring option"
  audioFile :: "jsstring option"
  isPlaying :: bool
  duration :: rat
  currentTime :: rat
  sessionPromiseRef :: bool
  audioContextRef :: "AudioContextState option"
  streamRef :: bool
  scriptProcessorRef :: bool
  mediaStreamSourceRef :: bool
  currentTranscriptionRef :: jsstring
  audioPlayerRef :: bool
  recordingStateRef :: RecordingState
  localStorage :: "HistoryEntry list option"
  storageWritable :: bool
  pending :: "cont list"
  effects :: "effect list"

definition perform :: "effect \<Rightarrow> app \<Rightarrow> app" where
  "perform e s = s\<lparr>effects := effects s @ [e]\<rparr>"

definition setRecordingState :: "RecordingState \<Rightarrow> app \<Rightarrow> app" where
  "setRecordingState st s = perform (SetRecordingState st) (s\<lparr>recordingState := st\<rparr>)"

definition suspend :: "cont \<Rightarrow> app \<Rightarrow> app" where
  "suspend k s = s\<lparr>pending := pending s @ [k]\<rparr>"

text \<open>The state after the first render: the initial values of \<open>useState\<close> and \<open>useRef\<close>.\<close>

definition initial_app :: app where
  "initial_app = \<lparr>recordingState = IDLE, transcribedText = [], translatedText = [],
     targetLanguage = str ''es'', history = [], error = None, audioFile = None,
     isPlaying = False, duration = 0, currentTime = 0, sessionPromiseRef = False,
     audioContextRef = None, streamRef = False, scriptProcessorRef = False,
     mediaStreamSourceRef = False, currentTranscriptionRef = [], audioPlayerRef = True,
     recordingStateRef = IDLE, localStorage = None, storageWritable = True,
     pending = [], effects = []\<rparr>"

section \<open>History Store\<close>

text \<open>
  \<open>localStorage.setItem('transcriptionHistory', JSON.stringify(h))\<close> throws where the
  storage refuses the write (quota exceeded, storage disabled).
\<close>

definition localStorage_setItem :: "HistoryEntry list \<Rightarrow> app \<Rightarrow> thrown + app" where
  "localStorage_setItem h s =
     (if storageWritable s then Inr (perform (StorageSetItem h) (s\<lparr>localStorage := Some h\<rparr>))
      else Inl (Error (str ''QuotaExceededError'')))"

text \<open>
  \<open>saveToHistory\<close>. The two \<open>new Date()\<close> readings are parameters: \<open>isoNow\<close> is the value of
  \<open>new Date().toISOString()\<close> and \<open>locNow\<close> that of \<open>new Date().toLocaleString()\<close>.
\<close>

definition newEntry :: "jsstring \<Rightarrow> jsstring \<Rightarrow> EntryInput \<Rightarrow> HistoryEntry" where
  "newEntry isoNow locNow entry =
     \<lparr>e_id = isoNow, e_timestamp = locNow,
      e_transcribedText = i_transcribedText entry,
      e_translatedText = i_translatedText entry,
      e_targetLanguage = i_targetLanguage entry\<rparr>"

definition saveToHistory :: "jsstring \<Rightarrow> jsstring \<Rightarrow> EntryInput \<Rightarrow> app \<Rightarrow> app" where
  "saveToHistory isoNow locNow entry s =
     (let updatedHistory = take 20 (newEntry isoNow locNow entry # history s);
          s1 = (case localStorage_setItem updatedHistory s of
                  Inr s' \<Rightarrow> s'
                | Inl e \<Rightarrow> perform (ConsoleError (str ''Failed to save history to localStorage'')) s)
      in s1\<lparr>history := updatedHistory\<rparr>)"

text \<open>
  \<open>deleteHistoryItem\<close>, that is, the updater it hands to \<open>setHistory\<close>. The call of
  \<open>setItem\<close> is not inside a \<open>try\<close>: what it throws leaves the updater before
  \<open>return newHistory\<close>, so the history keeps its value; \<open>Inl\<close> is the exception leaving the
  updater, which React runs (the click handler itself has returned by then).
\<close>

definition deleteHistoryItem :: "jsstring \<Rightarrow> app \<Rightarrow> thrown + app" where
  "deleteHistoryItem ident s =
     (let newHistory = filter (\<lambda>item. e_id item \<noteq> ident) (history s)
      in case localStorage_setItem newHistory s of
           Inl e \<Rightarrow> Inl e
         | Inr s' \<Rightarrow> Inr (s'\<lparr>history := newHistory\<rparr>))"

text \<open>
  Appending a sequence of entries, each with its own clock readings; \<open>stamp\<close> is the
  entry that \<open>saveToHistory\<close> builds from one element of the sequence.
\<close>

fun stamp :: "jsstring \<times> jsstring \<times> EntryInput \<Rightarrow> HistoryEntry" where
  "stamp (isoNow, locNow, entry) = newEntry isoNow locNow entry"

fun appendAll :: "(jsstring \<times> jsstring \<times> EntryInput) list \<Rightarrow> app \<Rightarrow> app" where
  "appendAll [] s = s"
| "appendAll ((isoNow, locNow, entry) # rest) s =
     appendAll rest (saveToHistory isoNow locNow entry s)"

section \<open>Audio Encoder\<close>

text \<open>
  An element of a \<open>Float32Array\<close>, read as a JavaScript Number: \<open>Finite q\<close> is the float
  whose exact value is the rational \<open>q\<close> (every finite float is a dyadic rational; the two
  zeros are both \<open>Finite 0\<close>). The product with 32768, a power of two, is exact in double
  precision for every 32-bit float, so \<open>times_32768\<close> needs no rounding.
\<close>

datatype number = Finite rat | NaN | PosInfinity | NegInfinity

definition times_32768 :: "number \<Rightarrow> number" where
  "times_32768 x = (case x of Finite q \<Rightarrow> Finite (q * 32768) | NaN \<Rightarrow> NaN
                    | PosInfinity \<Rightarrow> PosInfinity | NegInfinity \<Rightarrow> NegInfinity)"

text \<open>The mathematical function truncate of ECMA-262: rounding towards zero.\<close>

definition js_truncate :: "rat \<Rightarrow> int" where
  "js_truncate q = (if q < 0 then \<lceil>q\<rceil> else \<lfloor>q\<rfloor>)"

text \<open>
  Storing a Number into an \<open>Int16Array\<close> applies ToInt16 (ECMA-262, 7.1.8): a value that
  is not finite becomes 0; otherwise the value is truncated, taken modulo \<open>2^16\<close>, and
  read as two's complement.
\<close>

definition ToInt16 :: "number \<Rightarrow> int" where
  "ToInt16 x =
     (case x of
        Finite q \<Rightarrow>
          (let int16bit = js_truncate q mod 65536
           in if int16bit \<ge> 32768 then int16bit - 65536 else int16bit)
      | NaN \<Rightarrow> 0 | PosInfinity \<Rightarrow> 0 | NegInfinity \<Rightarrow> 0)"

text \<open>The loop of \<open>createBlob\<close>: \<open>int16[i] = data[i] * 32768\<close> for every index.\<close>

definition createBlob_int16 :: "number list \<Rightarrow> int list" where
  "createBlob_int16 data = map (\<lambda>x. ToInt16 (times_32768 x)) data"

text \<open>
  \<open>new Uint8Array(int16.buffer)\<close>: the two bytes of every element, low byte first
  (typed arrays use the byte order of the platform, little-endian on the platforms that
  run browsers).
\<close>

definition int16_bytes :: "int \<Rightarrow> nat list" where
  "int16_bytes x = (let u = nat (x mod 65536) in [u mod 256, u div 256])"

definition base64_alphabet :: string where
  "base64_alphabet = ''ABCDEFGHIJKLMNOPQRSTUVWXYZabcdefghijklmnopqrstuvwxyz0123456789+/''"

definition b64 :: "nat \<Rightarrow> char" where
  "b64 i = base64_alphabet ! (i mod 64)"

text \<open>
  \<open>btoa\<close> on the binary string of a byte array (every code unit is below 256, so it does
  not throw): three bytes give four characters, with \<open>=\<close> padding at the end.
\<close>

fun btoa :: "nat list \<Rightarrow> string" where
  "btoa [] = []"
| "btoa [a] = [b64 (a div 4), b64 ((a mod 4) * 16), CHR ''='', CHR ''='']"
| "btoa [a, b] =
     [b64 (a div 4), b64 ((a mod 4) * 16 + b div 16), b64 ((b mod 16) * 4), CHR ''='']"
| "btoa (a # b # c # rest) =
     [b64 (a div 4), b64 ((a mod 4) * 16 + b div 16), b64 ((b mod 16) * 4 + c div 64),
      b64 (c mod 64)] @ btoa rest"

definition encode :: "nat list \<Rightarrow> jsstring" where
  "encode bytes = str (btoa bytes)"

record blob =
  b_data :: jsstring
  b_mimeType :: jsstring

definition createBlob :: "number list \<Rightarrow> blob" where
  "createBlob data =
     \<lparr>b_data = encode (concat (map int16_bytes (createBlob_int16 data))),
      b_mimeType = str ''audio/pcm;rate=16000''\<rparr>"

section \<open>Translation Invoker\<close>

definition dquote :: jsstring where
  "dquote = [34]"

text \<open>
  \<open>TARGET_LANGUAGES.find(l => l.code === language)?.name || language\<close>: the name of the
  first entry with that code, and the code itself where there is none or its name is
  the empty string.
\<close>

definition selectedLanguageName_of :: "Language list \<Rightarrow> jsstring \<Rightarrow> jsstring" where
  "selectedLanguageName_of TARGET_LANGUAGES language =
     (case find (\<lambda>l. code l = language) TARGET_LANGUAGES of
        None \<Rightarrow> language
      | Some l \<Rightarrow> if name l = [] then language else name l)"

text \<open>The template literal of the prompt.\<close>

definition prompt_of :: "jsstring \<Rightarrow> jsstring \<Rightarrow> jsstring" where
  "prompt_of selectedLanguageName textToTranslate =
     str ''Translate the following text to '' @ selectedLanguageName
       @ str '': '' @ dquote @ textToTranslate @ dquote"

text \<open>
  \<open>translateText\<close> up to its \<open>await\<close>. The request is logged with its prompt; the
  continuation keeps \<open>textToTranslate\<close> and \<open>selectedLanguageName\<close>.
\<close>

definition translateText :: "Language list \<Rightarrow> jsstring \<Rightarrow> jsstring \<Rightarrow> app \<Rightarrow> app" where
  "translateText TARGET_LANGUAGES textToTranslate language s =
     (if js_trim textToTranslate = [] then s
      else
        let s1 = setRecordingState TRANSLATING s;
            s2 = s1\<lparr>translatedText := str ''Translating...''\<rparr>;
            s3 = s2\<lparr>error := None\<rparr>;
            selectedLanguageName = selectedLanguageName_of TARGET_LANGUAGES language;
            prompt = prompt_of selectedLanguageName textToTranslate
        in suspend (K_translateText textToTranslate selectedLanguageName)
             (perform (GenerateContent prompt) s3))"

text \<open>
  \<open>e instanceof Error ? e.message : 'An unknown error occurred during translation.'\<close>
\<close>

definition errorMessage_of :: "thrown \<Rightarrow> jsstring" where
  "errorMessage_of e =
     (case e of Error m \<Rightarrow> m
      | NonError \<Rightarrow> str ''An unknown error occurred during translation.'')"

text \<open>
  \<open>translateText\<close> from the settlement of \<open>generateContent\<close> on: the rest of the \<open>try\<close>
  block, or the \<open>catch\<close> block, and then the \<open>finally\<close> block. Two simplifications,
  neither of which changes a state variable at the end: a throw of the \<open>GoogleGenAI\<close>
  constructor ends in the same \<open>catch\<close> and is a rejection here, although the code
  sends no request then; and the write of \<open>saveToHistory\<close> is logged where
  \<open>saveToHistory\<close> is called, although React runs the updater of \<open>setHistory\<close> when it
  processes the update, which may be after the \<open>finally\<close> block.
\<close>

definition translateText_resume ::
  "jsstring \<Rightarrow> jsstring \<Rightarrow> outcome \<Rightarrow> jsstring \<Rightarrow> jsstring \<Rightarrow> app \<Rightarrow> app" where
  "translateText_resume textToTranslate selectedLanguageName r isoNow locNow s =
     (let s' =
        (case r of
           Resolved translation \<Rightarrow>
             (let s1 = s\<lparr>translatedText := translation\<rparr>
              in saveToHistory isoNow locNow
                   \<lparr>i_transcribedText = textToTranslate, i_translatedText = translation,
                    i_targetLanguage = selectedLanguageName\<rparr> s1)
         | Rejected e \<Rightarrow>
             (let s1 = perform (ConsoleError (str ''Translation error:'')) s;
                  errorMessage = errorMessage_of e;
                  s2 = s1\<lparr>error := Some (str ''Translation failed: '' @ errorMessage)\<rparr>
              in s2\<lparr>translatedText := []\<rparr>))
      in setRecordingState IDLE s')"

section \<open>Session Lifecycle Controller\<close>

text \<open>
  \<open>stopRecording\<close> has two \<open>await\<close>s, both conditional, so it falls into four pieces:
  the guard and the wait for the session; the release steps up to the wait for
  \<open>close()\<close>; and the flush of the transcript buffer. \<open>lang\<close> is the \<open>targetLanguage\<close> of
  the closure.
\<close>

definition stopRecording_flush :: "Language list \<Rightarrow> jsstring \<Rightarrow> app \<Rightarrow> app" where
  "stopRecording_flush TARGET_LANGUAGES lang s =
     (if js_trim (currentTranscriptionRef s) \<noteq> [] then
        let finalText = currentTranscriptionRef s;
            s1 = s\<lparr>currentTranscriptionRef := []\<rparr>;
            s2 = s1\<lparr>transcribedText := finalText\<rparr>
        in translateText TARGET_LANGUAGES finalText lang s2
      else setRecordingState IDLE s)"

definition stopRecording_release :: "Language list \<Rightarrow> jsstring \<Rightarrow> app \<Rightarrow> app" where
  "stopRecording_release TARGET_LANGUAGES lang s =
     (let s1 = (if streamRef s then (perform TrackStop s)\<lparr>streamRef := False\<rparr> else s);
          s2 = (if scriptProcessorRef s1
                then (perform ScriptProcessorDisconnect s1)\<lparr>scriptProcessorRef := False\<rparr>
                else s1);
          s3 = (if mediaStreamSourceRef s2
                then (perform MediaStreamSourceDisconnect s2)\<lparr>mediaStreamSourceRef := False\<rparr>
                else s2)
      in case audioContextRef s3 of
           None \<Rightarrow> stopRecording_flush TARGET_LANGUAGES lang s3
         | Some st \<Rightarrow>
             if st \<noteq> Closed
             then suspend (K_stopRecording_close lang) (perform AudioContextClose s3)
             else stopRecording_flush TARGET_LANGUAGES lang s3)"

definition stopRecording :: "Language list \<Rightarrow> app \<Rightarrow> app" where
  "stopRecording TARGET_LANGUAGES s =
     (if recordingStateRef s \<noteq> RECORDING then s
      else
        let s1 = setRecordingState STOPPING s
        in if sessionPromiseRef s1
           then suspend (K_stopRecording_session (targetLanguage s)) s1
           else stopRecording_release TARGET_LANGUAGES (targetLanguage s) s1)"

text \<open>
  The two resumptions of \<open>stopRecording\<close>. A rejected promise makes the \<open>await\<close> throw:
  nothing catches it, and the rest of the function does not run.
\<close>

definition stopRecording_resume_session ::
  "Language list \<Rightarrow> jsstring \<Rightarrow> outcome \<Rightarrow> app \<Rightarrow> app" where
  "stopRecording_resume_session TARGET_LANGUAGES lang r s =
     (case r of
        Rejected e \<Rightarrow> s
      | Resolved _ \<Rightarrow>
          (let s1 = perform SessionClose s;
               s2 = s1\<lparr>sessionPromiseRef := False\<rparr>
           in stopRecording_release TARGET_LANGUAGES lang s2))"

definition stopRecording_resume_close ::
  "Language list \<Rightarrow> jsstring \<Rightarrow> outcome \<Rightarrow> app \<Rightarrow> app" where
  "stopRecording_resume_close TARGET_LANGUAGES lang r s =
     (case r of
        Rejected e \<Rightarrow> s
      | Resolved _ \<Rightarrow>
          stopRecording_flush TARGET_LANGUAGES lang (s\<lparr>audioContextRef := None\<rparr>))"

definition handleMessage :: "Language list \<Rightarrow> jsstring option \<Rightarrow> bool \<Rightarrow> app \<Rightarrow> app" where
  "handleMessage TARGET_LANGUAGES inputTranscription turnComplete s =
     (let s2 = (case inputTranscription of
                  None \<Rightarrow> s
                | Some text \<Rightarrow>
                    (let s1 = s\<lparr>currentTranscriptionRef := currentTranscriptionRef s @ text\<rparr>
                     in s1\<lparr>transcribedText := currentTranscriptionRef s1\<rparr>))
      in if turnComplete then stopRecording TARGET_LANGUAGES s2 else s2)"

definition handleError :: "Language list \<Rightarrow> jsstring \<Rightarrow> app \<Rightarrow> app" where
  "handleError TARGET_LANGUAGES message s =
     (let s1 = perform (ConsoleError (str ''Live session error:'')) s;
          s2 = s1\<lparr>error := Some (str ''An error occurred: '' @ message
                                   @ str ''. Please try again.'')\<rparr>;
          s3 = stopRecording TARGET_LANGUAGES s2
      in setRecordingState ERROR s3)"

definition clearAudioFile :: "app \<Rightarrow> app" where
  "clearAudioFile s =
     (let s1 = s\<lparr>audioFile := None, isPlaying := False, duration := 0, currentTime := 0\<rparr>
      in if audioPlayerRef s1 then perform PlayerPause s1 else s1)"

text \<open>
  \<open>startRecording\<close> up to \<open>await getUserMedia\<close>. It is the click handler of the latest
  render, so the \<open>recordingState\<close> of its closure is the rendered value, the one the
  effect copied into \<open>recordingStateRef\<close>.
\<close>

definition startRecording :: "Language list \<Rightarrow> app \<Rightarrow> app" where
  "startRecording TARGET_LANGUAGES s =
     (if recordingStateRef s = RECORDING then stopRecording TARGET_LANGUAGES s
      else
        let s0 = (if audioFile s \<noteq> None then clearAudioFile s else s);
            s1 = setRecordingState REQUESTING_PERMISSION s0;
            s2 = s1\<lparr>error := None, transcribedText := [], translatedText := [],
                    currentTranscriptionRef := []\<rparr>
        in suspend K_startRecording (perform GetUserMedia s2))"

definition startRecording_resume :: "outcome \<Rightarrow> app \<Rightarrow> app" where
  "startRecording_resume r s =
     (case r of
        Resolved _ \<Rightarrow>
          (let s1 = s\<lparr>streamRef := True\<rparr>;
               s2 = perform LiveConnect s1
           in s2\<lparr>sessionPromiseRef := True\<rparr>)
      | Rejected err \<Rightarrow>
          (let s1 = perform (ConsoleError (str ''Error starting recording:'')) s;
               errorMessage =
                 (case err of Error m \<Rightarrow> m | NonError \<Rightarrow> str ''An unknown error occurred.'');
               s2 = (if includes_js errorMessage (str ''Permission denied'')
                     then s1\<lparr>error := Some (str ''Microphone permission denied. Please allow microphone access in your browser settings.'')\<rparr>
                     else s1\<lparr>error := Some (str ''Failed to start recording: '' @ errorMessage)\<rparr>)
           in setRecordingState ERROR s2))"

text \<open>The callbacks \<open>onopen\<close> of the session and \<open>onaudioprocess\<close> of the script processor.\<close>

definition onopen :: "app \<Rightarrow> app" where
  "onopen s =
     (let s1 = setRecordingState RECORDING s
      in s1\<lparr>audioContextRef := Some Running, mediaStreamSourceRef := True,
              scriptProcessorRef := True\<rparr>)"

definition onaudioprocess :: "number list \<Rightarrow> app \<Rightarrow> app" where
  "onaudioprocess inputData s =
     (let pcmBlob = createBlob inputData
      in perform (SendRealtimeInput (b_data pcmBlob) (b_mimeType pcmBlob)) s)"

section \<open>The event loop\<close>

text \<open>
  The program is single-threaded: every event runs one piece of code to its end or to its
  next \<open>await\<close>. \<open>Settle n r isoNow locNow\<close> settles the promise that the \<open>n\<close>-th suspended
  continuation waits for, with outcome \<open>r\<close>, at a moment when the clock reads \<open>isoNow\<close>
  and \<open>locNow\<close>. \<open>Render\<close> is a committed render of \<open>App\<close>: its effect copies
  \<open>recordingState\<close> into \<open>recordingStateRef\<close>. A click reaches \<open>startRecording\<close> only
  where the last render shows the \<open>RecordButton\<close> (no file is loaded) and has not
  disabled it (\<open>isDisabled\<close> of \<open>RecordButton\<close>).
\<close>

definition RecordButton_isDisabled :: "RecordingState \<Rightarrow> bool" where
  "RecordButton_isDisabled st =
     (st = STOPPING \<or> st = REQUESTING_PERMISSION \<or> st = TRANSLATING)"

datatype event =
    Click_RecordButton
  | Session_onopen
  | Session_onmessage "jsstring option" bool
  | Session_onerror jsstring
  | AudioProcess "number list"
  | Settle nat outcome jsstring jsstring
  | Render

definition resume ::
  "Language list \<Rightarrow> cont \<Rightarrow> outcome \<Rightarrow> jsstring \<Rightarrow> jsstring \<Rightarrow> app \<Rightarrow> app" where
  "resume TARGET_LANGUAGES k r isoNow locNow s =
     (case k of
        K_startRecording \<Rightarrow> startRecording_resume r s
      | K_stopRecording_session lang \<Rightarrow> stopRecording_resume_session TARGET_LANGUAGES lang r s
      | K_stopRecording_close lang \<Rightarrow> stopRecording_resume_close TARGET_LANGUAGES lang r s
      | K_translateText textToTranslate selectedLanguageName \<Rightarrow>
          translateText_resume textToTranslate selectedLanguageName r isoNow locNow s)"

definition step :: "Language list \<Rightarrow> event \<Rightarrow> app \<Rightarrow> app" where
  "step TARGET_LANGUAGES ev s =
     (case ev of
        Click_RecordButton \<Rightarrow>
          (if audioFile s \<noteq> None \<or> RecordButton_isDisabled (recordingStateRef s) then s
           else startRecording TARGET_LANGUAGES s)
      | Session_onopen \<Rightarrow> onopen s
      | Session_onmessage inputTranscription turnComplete \<Rightarrow>
          handleMessage TARGET_LANGUAGES inputTranscription turnComplete s
      | Session_onerror message \<Rightarrow> handleError TARGET_LANGUAGES message s
      | AudioProcess inputData \<Rightarrow> onaudioprocess inputData s
      | Settle n r isoNow locNow \<Rightarrow>
          (if n < length (pending s)
           then resume TARGET_LANGUAGES (pending s ! n) r isoNow locNow
                  (s\<lparr>pending := take n (pending s) @ drop (Suc n) (pending s)\<rparr>)
           else s)
      | Render \<Rightarrow> s\<lparr>recordingStateRef := recordingState s\<rparr>)"

fun run :: "Language list \<Rightarrow> event list \<Rightarrow> app \<Rightarrow> app" where
  "run TARGET_LANGUAGES [] s = s"
| "run TARGET_LANGUAGES (ev # evs) s = run TARGET_LANGUAGES evs (step TARGET_LANGUAGES ev s)"

text \<open>
  The invoker run to its end with nothing in between: \<open>translateText\<close> is called, and
  then the promise it waits for (the last one suspended) settles with outcome \<open>r\<close>.
\<close>

definition translateText_settled ::
  "Language list \<Rightarrow> jsstring \<Rightarrow> jsstring \<Rightarrow> outcome \<Rightarrow> jsstring \<Rightarrow> jsstring \<Rightarrow> app \<Rightarrow> app" where
  "translateText_settled TARGET_LANGUAGES textToTranslate language r isoNow locNow s =
     step TARGET_LANGUAGES (Settle (length (pending s)) r isoNow locNow)
       (translateText TARGET_LANGUAGES textToTranslate language s)"

text \<open>What the log says: the session states set, and the prompts sent for translation.\<close>

fun states_set :: "effect list \<Rightarrow> RecordingState list" where
  "states_set [] = []"
| "states_set (SetRecordingState st # es) = st # states_set es"
| "states_set (e # es) = states_set es"

fun requests :: "effect list \<Rightarrow> jsstring list" where
  "requests [] = []"
| "requests (GenerateContent prompt # es) = prompt # requests es"
| "requests (e # es) = requests es"

section \<open>Concrete inputs\<close>

text \<open>Twenty-five entries that differ in every field but the language.\<close>

definition entry_no :: "nat \<Rightarrow> jsstring \<times> jsstring \<times> EntryInput" where
  "entry_no k =
     ([48 + k], str ''now'',
      \<lparr>i_transcribedText = [97 + k], i_translatedText = [65 + k],
       i_targetLanguage = str ''Spanish''\<rparr>)"

definition sample_entry :: EntryInput where
  "sample_entry =
     \<lparr>i_transcribedText = str ''Hello world'', i_translatedText = str ''Hola mundo'',
      i_targetLanguage = str ''Spanish''\<rparr>"

definition sample_iso :: jsstring where
  "sample_iso = str ''2025-01-01T00:00:00.000Z''"

definition sample_iso2 :: jsstring where
  "sample_iso2 = str ''2025-01-01T00:00:00.001Z''"

definition sample_iso3 :: jsstring where
  "sample_iso3 = str ''2025-01-01T00:00:00.002Z''"

definition sample_loc :: jsstring where
  "sample_loc = str ''1/1/2025, 12:00:00 AM''"

text \<open>A browser whose storage refuses every write.\<close>

definition storage_refusing :: app where
  "storage_refusing = initial_app\<lparr>storageWritable := False\<rparr>"

text \<open>
  The application as it is once mounted: the initial state, with any target language,
  any history loaded from storage, and any storage.
\<close>

definition start_state ::
  "jsstring \<Rightarrow> HistoryEntry list \<Rightarrow> HistoryEntry list option \<Rightarrow> bool \<Rightarrow> app" where
  "start_state lang h st w =
     initial_app\<lparr>targetLanguage := lang, history := h, localStorage := st,
                 storageWritable := w\<rparr>"

text \<open>
  The events that take the application into Recording: the click, the grant of the
  microphone, and the opening of the session, each followed by a render.
\<close>

definition session_opening :: "event list" where
  "session_opening =
     [Click_RecordButton, Render,
      Settle 0 (Resolved []) [] [], Render,
      Session_onopen, Render]"

text \<open>
  React commits a render at moments of its own choosing: between two events of a
  schedule there is a render, or there is none.
\<close>

definition render_if :: "bool \<Rightarrow> event list" where
  "render_if b = (if b then [Render] else [])"

text \<open>
  The scenario of the two fragments, in three phases. The opening: the click, the grant
  of the microphone, the opening of the session. The fragments: the messages \<open>Hello\<close>
  and \<open> world\<close>. The closing: the end of the turn, the session promise and \<open>close()\<close>
  resolving, and the translation settling with outcome \<open>r\<close>. The flags \<open>b0\<close> to \<open>b8\<close>
  say after which of these events a render is committed; \<open>b2\<close>, \<open>b3\<close> and \<open>b4\<close> are the
  renders between the opening of the session and the end of the turn.
\<close>

definition opening_phase :: "bool \<Rightarrow> bool \<Rightarrow> event list" where
  "opening_phase b0 b1 =
     [Click_RecordButton] @ render_if b0 @
     [Settle 0 (Resolved []) [] []] @ render_if b1 @
     [Session_onopen]"

definition fragments_phase :: "bool \<Rightarrow> bool \<Rightarrow> bool \<Rightarrow> event list" where
  "fragments_phase b2 b3 b4 =
     render_if b2 @
     [Session_onmessage (Some (str ''Hello'')) False] @ render_if b3 @
     [Session_onmessage (Some (str '' world'')) False] @ render_if b4"

definition closing_phase ::
  "bool \<Rightarrow> bool \<Rightarrow> bool \<Rightarrow> bool \<Rightarrow> outcome \<Rightarrow> jsstring \<Rightarrow> jsstring \<Rightarrow> event list" where
  "closing_phase b5 b6 b7 b8 r isoNow locNow =
     [Session_onmessage None True] @ render_if b5 @
     [Settle 0 (Resolved []) [] []] @ render_if b6 @
     [Settle 0 (Resolved []) [] []] @ render_if b7 @
     [Settle 0 r isoNow locNow] @ render_if b8"

definition hello_world_session ::
  "bool \<Rightarrow> bool \<Rightarrow> bool \<Rightarrow> bool \<Rightarrow> bool \<Rightarrow> bool \<Rightarrow> bool \<Rightarrow> bool \<Rightarrow> bool \<Rightarrow>
   outcome \<Rightarrow> jsstring \<Rightarrow> jsstring \<Rightarrow> event list" where
  "hello_world_session b0 b1 b2 b3 b4 b5 b6 b7 b8 r isoNow locNow =
     opening_phase b0 b1 @ fragments_phase b2 b3 b4
       @ closing_phase b5 b6 b7 b8 r isoNow locNow"

text \<open>
  The application while Recording, a session started from \<open>start_state\<close>: the ref holds
  \<open>rf\<close>, and the transcript buffer and the transcript display hold \<open>buf\<close>.
\<close>

definition recording_app ::
  "jsstring \<Rightarrow> HistoryEntry list \<Rightarrow> HistoryEntry list option \<Rightarrow> bool \<Rightarrow>
   RecordingState \<Rightarrow> jsstring \<Rightarrow> app" where
  "recording_app lang h st w rf buf =
     (start_state lang h st w)
       \<lparr>recordingState := RECORDING, transcribedText := buf, sessionPromiseRef := True,
        audioContextRef := Some Running, streamRef := True, scriptProcessorRef := True,
        mediaStreamSourceRef := True, currentTranscriptionRef := buf,
        recordingStateRef := rf,
        effects := [SetRecordingState REQUESTING_PERMISSION, GetUserMedia, LiveConnect,
                    SetRecordingState RECORDING]\<rparr>"

text \<open>
  The end of the turn has arrived while Recording, and no render has been committed
  since: the state is Stopping, and the ref still holds Recording.
\<close>

definition stop_in_flight :: "event list" where
  "stop_in_flight = session_opening @ [Session_onmessage None True]"

text \<open>
  A transport error while Recording: after the opening, the error event, and then the
  session promise and \<open>close()\<close> resolving, each followed by a render.
\<close>

definition error_while_recording :: "event list" where
  "error_while_recording =
     session_opening @
     [Session_onerror (str ''connection lost''), Render,
      Settle 0 (Resolved []) [] [], Render,
      Settle 0 (Resolved []) [] [], Render]"

section \<open>Auxiliary facts\<close>

lemmas lifecycle_defs =
  step_def resume_def startRecording_def startRecording_resume_def onopen_def handleMessage_def
  handleError_def stopRecording_def stopRecording_resume_session_def stopRecording_release_def
  stopRecording_resume_close_def stopRecording_flush_def translateText_def
  translateText_resume_def saveToHistory_def localStorage_setItem_def setRecordingState_def
  perform_def suspend_def clearAudioFile_def RecordButton_isDisabled_def

lemma js_trim_Hello_world: "js_trim (str ''Hello world'') \<noteq> []"
  by (simp add: js_trim_def str_def isWhiteSpace_def)

lemma str_Hello_world: "str ''Hello'' @ str '' world'' = str ''Hello world''"
  by (simp add: str_def)

lemma history_saveToHistory:
  "history (saveToHistory isoNow locNow entry s) =
     take 20 (newEntry isoNow locNow entry # history s)"
  by (simp add: saveToHistory_def localStorage_setItem_def perform_def Let_def)

lemma e_id_newEntry: "e_id (newEntry isoNow locNow entry) = isoNow"
  by (simp add: newEntry_def)

lemma take_append_take: "take n (xs @ take n ys) = take n (xs @ ys)"
  by (simp add: min_def)

text \<open>
  The store after a sequence of appends: the new entries, newest first, before the old
  ones, cut at twenty.
\<close>

lemma history_appendAll:
  "length (history s) \<le> 20 \<Longrightarrow>
   history (appendAll xs s) = take 20 (rev (map stamp xs) @ history s)"
proof (induction xs arbitrary: s)
  case Nil
  then show ?case by simp
next
  case (Cons x xs)
  obtain i l e where x: "x = (i, l, e)" by (cases x)
  have "length (history (saveToHistory i l e s)) \<le> 20"
    by (simp add: history_saveToHistory)
  then have "history (appendAll (x # xs) s) =
      take 20 (rev (map stamp xs) @ take 20 (stamp x # history s))"
    by (simp add: x Cons.IH history_saveToHistory)
  also have "\<dots> = take 20 (rev (map stamp xs) @ (stamp x # history s))"
    by (rule take_append_take)
  finally show ?case by simp
qed

text \<open>When the write is refused, \<open>saveToHistory\<close> logs and still updates the history.\<close>

lemma saveToHistory_swallows:
  "\<not> storageWritable s \<Longrightarrow>
   saveToHistory isoNow locNow entry s =
     s\<lparr>history := take 20 (newEntry isoNow locNow entry # history s),
       effects := effects s @ [ConsoleError (str ''Failed to save history to localStorage'')]\<rparr>"
  by (simp add: saveToHistory_def localStorage_setItem_def perform_def Let_def)

lemma saveToHistory_persists:
  "storageWritable s \<Longrightarrow>
   localStorage (saveToHistory isoNow locNow entry s) =
     Some (history (saveToHistory isoNow locNow entry s))"
  by (simp add: saveToHistory_def localStorage_setItem_def perform_def Let_def)

lemma ToInt16_range: "- 32768 \<le> ToInt16 x \<and> ToInt16 x \<le> 32767"
proof (cases x)
  case (Finite q)
  have "0 \<le> js_truncate q mod 65536" "js_truncate q mod 65536 < 65536" by simp_all
  then show ?thesis unfolding ToInt16_def Finite Let_def by (simp; linarith)
qed (simp_all add: ToInt16_def)

lemma ToInt16_cong: "(ToInt16 (Finite q) - js_truncate q) mod 65536 = 0"
proof -
  have "(js_truncate q mod 65536 - js_truncate q) mod 65536 = 0"
    by (simp add: mod_diff_left_eq)
  moreover have "(js_truncate q mod 65536 - 65536 - js_truncate q) mod 65536 = 0"
    by (metis calculation diff_right_commute minus_mod_self2)
  ultimately show ?thesis by (simp add: ToInt16_def Let_def)
qed

lemma ToInt16_in_range:
  assumes "- 32769 < q" and "q < 32768"
  shows "ToInt16 (Finite q) = js_truncate q"
proof -
  let ?t = "js_truncate q"
  have lo: "- 32768 \<le> ?t" using assms(1) unfolding js_truncate_def
    by (auto simp: le_ceiling_iff le_floor_iff)
  have hi: "?t < 32768" using assms(2) unfolding js_truncate_def
    by (auto simp: ceiling_less_iff floor_less_iff)
  show ?thesis
  proof (cases "0 \<le> ?t")
    case True
    then have "?t mod 65536 = ?t" using hi by simp
    then show ?thesis using hi by (simp add: ToInt16_def Let_def)
  next
    case False
    then have "?t mod 65536 = ?t + 65536" using lo
      by (smt (verit) mod_add_self2 mod_pos_pos_trivial)
    then show ?thesis using lo False by (simp add: ToInt16_def Let_def)
  qed
qed

lemma js_trim_Nil: "js_trim [] = []"
  by (simp add: js_trim_def)

lemma js_trim_whitespace:
  assumes "list_all isWhiteSpace text"
  shows "js_trim text = []"
proof -
  have "dropWhile isWhiteSpace text = []"
    using assms by (simp add: list_all_iff)
  then have "js_trim text = rev (dropWhile isWhiteSpace (rev []))"
    unfolding js_trim_def by (rule arg_cong)
  then show ?thesis by simp
qed

text \<open>
  The invoker on a text that is not blank: the prefix up to the request, and then the
  resumption on the state the prefix left.
\<close>

lemma translateText_settled_eq:
  "js_trim textToTranslate \<noteq> [] \<Longrightarrow>
   translateText_settled L textToTranslate language r isoNow locNow s =
     translateText_resume textToTranslate (selectedLanguageName_of L language) r isoNow locNow
       (perform (GenerateContent (prompt_of (selectedLanguageName_of L language) textToTranslate))
          ((setRecordingState TRANSLATING s)\<lparr>translatedText := str ''Translating...'', error := None\<rparr>))"
  by (simp add: translateText_settled_def translateText_def step_def resume_def suspend_def
      perform_def setRecordingState_def Let_def nth_append)


lemma translateText_resume_Rejected:
  "translatedText (translateText_resume t n (Rejected e) isoNow locNow s) = []
   \<and> error (translateText_resume t n (Rejected e) isoNow locNow s)
       = Some (str ''Translation failed: '' @ errorMessage_of e)
   \<and> history (translateText_resume t n (Rejected e) isoNow locNow s) = history s
   \<and> localStorage (translateText_resume t n (Rejected e) isoNow locNow s) = localStorage s"
  by (simp add: translateText_resume_def setRecordingState_def perform_def Let_def)

lemma translateText_resume_Resolved:
  "history (translateText_resume t n (Resolved tr) isoNow locNow s)
     = take 20 (newEntry isoNow locNow
         \<lparr>i_transcribedText = t, i_translatedText = tr, i_targetLanguage = n\<rparr> # history s)
   \<and> translatedText (translateText_resume t n (Resolved tr) isoNow locNow s) = tr"
  by (simp add: translateText_resume_def setRecordingState_def perform_def Let_def
      saveToHistory_def localStorage_setItem_def)


lemma floor_3_4: "\<lfloor>3 / 4 :: rat\<rfloor> = 0"
  by (rule floor_unique) simp_all

lemma floor_5_4: "\<lfloor>5 / 4 :: rat\<rfloor> = 1"
  by (rule floor_unique) simp_all

lemma run_append: "run L (xs @ ys) s = run L ys (run L xs s)"
  by (induction xs arbitrary: s) simp_all

text \<open>The three phases of the scenario of the two fragments.\<close>

lemma run_opening_phase:
  "run L (opening_phase b0 b1) (start_state lang h st w) =
     recording_app lang h st w (if b0 \<or> b1 then REQUESTING_PERMISSION else IDLE) []"
  by (cases b0; cases b1)
     (simp_all add: opening_phase_def render_if_def recording_app_def start_state_def
        initial_app_def lifecycle_defs Let_def)

lemma run_fragments_phase:
  assumes "b2 \<or> b3 \<or> b4"
  shows "run L (fragments_phase b2 b3 b4) (recording_app lang h st w rf []) =
     recording_app lang h st w RECORDING (str ''Hello world'')"
  using assms
  by (cases b2; cases b3; cases b4)
     (simp_all add: fragments_phase_def render_if_def recording_app_def start_state_def
        initial_app_def lifecycle_defs Let_def str_Hello_world)

lemma run_closing_phase:
  "transcribedText (run L (closing_phase b5 b6 b7 b8 r isoNow locNow)
       (recording_app lang h st w RECORDING (str ''Hello world''))) = str ''Hello world''
   \<and> states_set (effects (run L (closing_phase b5 b6 b7 b8 r isoNow locNow)
       (recording_app lang h st w RECORDING (str ''Hello world''))))
     = [REQUESTING_PERMISSION, RECORDING, STOPPING, TRANSLATING, IDLE]
   \<and> requests (effects (run L (closing_phase b5 b6 b7 b8 r isoNow locNow)
       (recording_app lang h st w RECORDING (str ''Hello world''))))
     = [str ''Translate the following text to ''
          @ (case find (\<lambda>l. code l = lang) L of None \<Rightarrow> lang
             | Some l \<Rightarrow> if name l = [] then lang else name l)
          @ str '': '' @ [34] @ str ''Hello world'' @ [34]]
   \<and> recordingState (run L (closing_phase b5 b6 b7 b8 r isoNow locNow)
       (recording_app lang h st w RECORDING (str ''Hello world''))) = IDLE"
  by (cases r; cases w; cases b5; cases b6; cases b7; cases b8)
     (simp_all add: closing_phase_def render_if_def recording_app_def start_state_def
        initial_app_def lifecycle_defs js_trim_Hello_world Let_def
        prompt_of_def selectedLanguageName_of_def dquote_def)

text \<open>
  In a rendered state (the ref holds the state) that is not Recording, \<open>stopRecording\<close>
  returns at its guard.
\<close>

lemma stopRecording_rendered_noop:
  assumes "recordingStateRef s = recordingState s" and "recordingState s \<noteq> RECORDING"
  shows "stopRecording L s = s"
  using assms by (simp add: stopRecording_def)

lemma upt_25:
  "[0..<25] = [0, 1, 2, 3, 4, 5, 6, 7, 8, 9, 10, 11, 12, 13, 14, 15, 16, 17, 18, 19, 20, 21,
               22, 23, 24]"
  by (simp add: upt_rec)

lemma ids_appendAll:
  assumes "history s = []"
  shows "map e_id (history (appendAll xs s)) = take 20 (rev (map fst xs))"
proof -
  have "e_id \<circ> stamp = fst" by (rule ext) (auto simp: e_id_newEntry)
  then show ?thesis
    by (simp add: history_appendAll assms take_map [symmetric] rev_map [symmetric])
qed

text \<open>
  The scenario of the two fragments under any schedule of renders that has a render
  between the opening of the session and the end of the turn, so that the ref holds
  Recording when the turn ends.
\<close>

lemma hello_world_any_schedule:
  assumes "b2 \<or> b3 \<or> b4"
  shows "transcribedText
           (run L (hello_world_session b0 b1 b2 b3 b4 b5 b6 b7 b8 r isoNow locNow)
              (start_state lang h st w))
           = str ''Hello world''
       \<and> states_set (effects
           (run L (hello_world_session b0 b1 b2 b3 b4 b5 b6 b7 b8 r isoNow locNow)
              (start_state lang h st w)))
           = [REQUESTING_PERMISSION, RECORDING, STOPPING, TRANSLATING, IDLE]
       \<and> requests (effects
           (run L (hello_world_session b0 b1 b2 b3 b4 b5 b6 b7 b8 r isoNow locNow)
              (start_state lang h st w)))
           = [str ''Translate the following text to ''
                @ (case find (\<lambda>l. code l = lang) L of None \<Rightarrow> lang
                   | Some l \<Rightarrow> if name l = [] then lang else name l)
                @ str '': '' @ [34] @ str ''Hello world'' @ [34]]
       \<and> recordingState
           (run L (hello_world_session b0 b1 b2 b3 b4 b5 b6 b7 b8 r isoNow locNow)
              (start_state lang h st w))
           = IDLE"
proof -
  have "run L (hello_world_session b0 b1 b2 b3 b4 b5 b6 b7 b8 r isoNow locNow)
          (start_state lang h st w)
      = run L (closing_phase b5 b6 b7 b8 r isoNow locNow)
          (recording_app lang h st w RECORDING (str ''Hello world''))"
    unfolding hello_world_session_def run_append run_opening_phase
    by (simp only: run_fragments_phase [OF assms])
  then show ?thesis by (simp only: run_closing_phase)
qed

section \<open>Session lifecycle\<close>

text \<open>
  C1. A recording is started from the mounted application (any target language, any
  stored history, any storage); the session delivers the fragments \<open>Hello\<close> and \<open> world\<close>
  and then the end of the turn; the awaited promises resolve, and the translation
  settles with any outcome; React renders after every event. Then the transcript
  display reads \<open>Hello world\<close>; the session states set are, after RequestingPermission,
  exactly Recording, Stopping, Translating and Idle in this order; the state at the end
  is Idle; and exactly one translation request was sent, whose prompt is
  \<open>Translate the following text to\<close>, the name of the target language, a colon, and
  \<open>Hello world\<close> in double quotes.
\<close>

theorem hello_world_scenario:
  "transcribedText
     (run L (hello_world_session True True True True True True True True True r isoNow locNow)
        (start_state lang h st w))
     = str ''Hello world''
   \<and> states_set (effects
     (run L (hello_world_session True True True True True True True True True r isoNow locNow)
        (start_state lang h st w)))
     = [REQUESTING_PERMISSION, RECORDING, STOPPING, TRANSLATING, IDLE]
   \<and> requests (effects
     (run L (hello_world_session True True True True True True True True True r isoNow locNow)
        (start_state lang h st w)))
     = [str ''Translate the following text to ''
          @ (case find (\<lambda>l. code l = lang) L of None \<Rightarrow> lang
             | Some l \<Rightarrow> if name l = [] then lang else name l)
          @ str '': '' @ [34] @ str ''Hello world'' @ [34]]
   \<and> recordingState
     (run L (hello_world_session True True True True True True True True True r isoNow locNow)
        (start_state lang h st w))
     = IDLE"
  by (rule hello_world_any_schedule) simp

text \<open>
  With the language table \<open>es\<close> for Spanish and the translation \<open>Hola mundo\<close>: the
  display and the prompt, code unit by code unit.
\<close>

theorem hello_world_scenario_witness:
  "transcribedText
       (run [\<lparr>code = str ''es'', name = str ''Spanish''\<rparr>]
          (hello_world_session True True True True True True True True True
             (Resolved (str ''Hola mundo'')) sample_iso sample_loc)
          (start_state (str ''es'') [] None True))
       = [72, 101, 108, 108, 111, 32, 119, 111, 114, 108, 100]
   \<and> states_set (effects
       (run [\<lparr>code = str ''es'', name = str ''Spanish''\<rparr>]
          (hello_world_session True True True True True True True True True
             (Resolved (str ''Hola mundo'')) sample_iso sample_loc)
          (start_state (str ''es'') [] None True)))
       = [REQUESTING_PERMISSION, RECORDING, STOPPING, TRANSLATING, IDLE]
   \<and> requests (effects
       (run [\<lparr>code = str ''es'', name = str ''Spanish''\<rparr>]
          (hello_world_session True True True True True True True True True
             (Resolved (str ''Hola mundo'')) sample_iso sample_loc)
          (start_state (str ''es'') [] None True)))
       = [[84, 114, 97, 110, 115, 108, 97, 116, 101, 32, 116, 104, 101, 32, 102, 111, 108,
           108, 111, 119, 105, 110, 103, 32, 116, 101, 120, 116, 32, 116, 111, 32, 83, 112,
           97, 110, 105, 115, 104, 58, 32, 34, 72, 101, 108, 108, 111, 32, 119, 111, 114,
           108, 100, 34]]"
  using hello_world_scenario [of "[\<lparr>code = str ''es'', name = str ''Spanish''\<rparr>]"
      "Resolved (str ''Hola mundo'')" sample_iso sample_loc "str ''es''" "[]" None True]
  by (simp add: str_def)

text \<open>
  C2, where the code departs from it. A transport error arrives while Recording, with
  the session open and the transcript buffer empty. \<open>handleError\<close> sets the message,
  starts \<open>stopRecording\<close> without awaiting it, and sets Error at once; the release steps
  run afterwards, and the last of them sets Idle. So the state is Error only until
  \<open>stopRecording\<close> resumes, and Idle in the end.
\<close>

theorem handleError_ends_idle:
  "recordingState
     (run L (session_opening @ [Session_onerror (str ''connection lost'')]) initial_app)
     = ERROR
   \<and> recordingState (run L error_while_recording initial_app) = IDLE
   \<and> error (run L error_while_recording initial_app)
       = Some (str ''An error occurred: connection lost. Please try again.'')
   \<and> effects (run L error_while_recording initial_app) =
       [SetRecordingState REQUESTING_PERMISSION, GetUserMedia, LiveConnect,
        SetRecordingState RECORDING, ConsoleError (str ''Live session error:''),
        SetRecordingState STOPPING, SetRecordingState ERROR, SessionClose, TrackStop,
        ScriptProcessorDisconnect, MediaStreamSourceDisconnect, AudioContextClose,
        SetRecordingState IDLE]"
  by (simp add: error_while_recording_def session_opening_def initial_app_def lifecycle_defs
      js_trim_Nil Let_def)
     (simp add: str_def)

text \<open>
  C8, where the code departs from it. The end of the turn has arrived while Recording,
  and React has not rendered since: the session state is Stopping, not Recording, but
  the guard of \<open>stopRecording\<close> reads the ref, which still holds Recording. A second
  stop there is not a no-op: it sets Stopping again and suspends a second continuation,
  and when the two resume the session is closed twice and the audio context is asked to
  close twice.
\<close>

theorem stopRecording_reentry:
  "recordingState (run L stop_in_flight initial_app) = STOPPING
   \<and> recordingStateRef (run L stop_in_flight initial_app) = RECORDING
   \<and> stopRecording L (run L stop_in_flight initial_app) \<noteq> run L stop_in_flight initial_app
   \<and> effects (stopRecording L (run L stop_in_flight initial_app))
       = effects (run L stop_in_flight initial_app) @ [SetRecordingState STOPPING]
   \<and> pending (run L stop_in_flight initial_app) = [K_stopRecording_session (str ''es'')]
   \<and> pending (stopRecording L (run L stop_in_flight initial_app))
       = [K_stopRecording_session (str ''es''), K_stopRecording_session (str ''es'')]
   \<and> effects (run L (stop_in_flight @ [Session_onmessage None True,
          Settle 0 (Resolved []) [] [], Settle 0 (Resolved []) [] []]) initial_app)
       = [SetRecordingState REQUESTING_PERMISSION, GetUserMedia, LiveConnect,
        SetRecordingState RECORDING, SetRecordingState STOPPING, SetRecordingState STOPPING,
        SessionClose, TrackStop, ScriptProcessorDisconnect, MediaStreamSourceDisconnect,
        AudioContextClose, SessionClose, AudioContextClose]"
proof -
  have s: "run L stop_in_flight initial_app =
      initial_app\<lparr>recordingState := STOPPING, sessionPromiseRef := True,
        audioContextRef := Some Running, streamRef := True, scriptProcessorRef := True,
        mediaStreamSourceRef := True, recordingStateRef := RECORDING,
        pending := [K_stopRecording_session (str ''es'')],
        effects := [SetRecordingState REQUESTING_PERMISSION, GetUserMedia, LiveConnect,
                    SetRecordingState RECORDING, SetRecordingState STOPPING]\<rparr>"
    by (simp add: stop_in_flight_def session_opening_def initial_app_def lifecycle_defs Let_def)
  have ne: "stopRecording L (run L stop_in_flight initial_app) \<noteq> run L stop_in_flight initial_app"
  proof
    assume "stopRecording L (run L stop_in_flight initial_app) = run L stop_in_flight initial_app"
    then have "pending (stopRecording L (run L stop_in_flight initial_app))
        = pending (run L stop_in_flight initial_app)" by simp
    then show False unfolding s by (simp add: initial_app_def lifecycle_defs Let_def)
  qed
  have rest: "effects (run L (stop_in_flight @ [Session_onmessage None True,
          Settle 0 (Resolved []) [] [], Settle 0 (Resolved []) [] []]) initial_app)
       = [SetRecordingState REQUESTING_PERMISSION, GetUserMedia, LiveConnect,
        SetRecordingState RECORDING, SetRecordingState STOPPING, SetRecordingState STOPPING,
        SessionClose, TrackStop, ScriptProcessorDisconnect, MediaStreamSourceDisconnect,
        AudioContextClose, SessionClose, AudioContextClose]"
    by (simp add: stop_in_flight_def session_opening_def initial_app_def lifecycle_defs Let_def)
  show ?thesis using ne rest unfolding s
    by (simp add: initial_app_def lifecycle_defs Let_def)
qed

section \<open>Translation\<close>

text \<open>
  C9. For a text that is empty or made of whitespace only, \<open>translateText\<close> returns the
  application unchanged, and so does the invoker run to its end: no request, no history
  entry, the same session state and displays.
\<close>

theorem translateText_blank:
  assumes "list_all isWhiteSpace textToTranslate"
  shows "translateText L textToTranslate language s = s
       \<and> translateText_settled L textToTranslate language r isoNow locNow s = s"
  using assms
  by (simp add: translateText_def translateText_settled_def step_def js_trim_whitespace)

theorem translateText_blank_witness:
  "list_all isWhiteSpace [32, 9, 10] \<and> list_all isWhiteSpace []
   \<and> translateText [] [32, 9, 10] (str ''es'') initial_app = initial_app
   \<and> translateText [] [] (str ''es'') initial_app = initial_app"
  using translateText_blank [of "[32, 9, 10]" "[]" "str ''es''" initial_app]
    translateText_blank [of "[]" "[]" "str ''es''" initial_app]
  by (simp add: isWhiteSpace_def)



text \<open>
  C10. When the remote call fails, the history and the stored item are what they were,
  from the call of the invoker to its end, and the resumption after the failure leaves
  the history of any state alone. When the call is made and succeeds, the store gets one
  entry, with the original text, the translation and the resolved language name.
\<close>

theorem translateText_history:
  "history (translateText_settled L textToTranslate language (Rejected e) isoNow locNow s)
     = history s
   \<and> localStorage (translateText_settled L textToTranslate language (Rejected e) isoNow locNow s)
     = localStorage s
   \<and> history (translateText_resume t n (Rejected e) isoNow locNow s) = history s
   \<and> (js_trim textToTranslate \<noteq> [] \<longrightarrow>
        history
          (translateText_settled L textToTranslate language (Resolved translation)
             isoNow locNow s)
          = take 20 (newEntry isoNow locNow
              \<lparr>i_transcribedText = textToTranslate, i_translatedText = translation,
               i_targetLanguage = selectedLanguageName_of L language\<rparr> # history s))"
proof (cases "js_trim textToTranslate = []")
  case True
  then show ?thesis
    by (simp add: translateText_settled_def translateText_def step_def
        translateText_resume_Rejected)
next
  case False
  then show ?thesis
    by (simp add: translateText_settled_eq translateText_resume_Rejected
        translateText_resume_Resolved perform_def setRecordingState_def)
qed

theorem translateText_history_witness:
  "js_trim (str ''Hello world'') \<noteq> []
   \<and> history (translateText_settled [] (str ''Hello world'') (str ''es'')
        (Rejected NonError) sample_iso sample_loc initial_app) = []
   \<and> history (translateText_settled [] (str ''Hello world'') (str ''es'')
        (Resolved (str ''Hola mundo'')) sample_iso sample_loc initial_app)
       = [\<lparr>e_id = sample_iso, e_timestamp = sample_loc, e_transcribedText = str ''Hello world'',
           e_translatedText = str ''Hola mundo'', e_targetLanguage = str ''es''\<rparr>]"
  using translateText_history [of "[]" "str ''Hello world''" "str ''es''" NonError sample_iso sample_loc
      initial_app "[]" "[]" "str ''Hola mundo''"]
  by (simp add: js_trim_Hello_world selectedLanguageName_of_def newEntry_def initial_app_def)

section \<open>Audio encoding\<close>

text \<open>
  C4, as the code has it. For every buffer and every finite sample \<open>q\<close> in it, the
  encoder stores at the same index a signed 16-bit integer that is congruent modulo
  \<open>2^16\<close> to \<open>q * 32768\<close> truncated towards zero (not rounded to the nearest integer).
  Nothing clamps: where the truncated product fits in 16 bits it is stored as it is,
  and elsewhere it wraps around.
\<close>

theorem createBlob_int16_sample:
  assumes "i < length data" and "data ! i = Finite q"
  shows "length (createBlob_int16 data) = length data
       \<and> - 32768 \<le> createBlob_int16 data ! i \<and> createBlob_int16 data ! i \<le> 32767
       \<and> (createBlob_int16 data ! i - js_truncate (q * 32768)) mod 65536 = 0
       \<and> (- 32769 < q * 32768 \<and> q * 32768 < 32768 \<longrightarrow>
            createBlob_int16 data ! i = js_truncate (q * 32768))"
proof -
  have "createBlob_int16 data ! i = ToInt16 (Finite (q * 32768))"
    using assms by (simp add: createBlob_int16_def times_32768_def)
  then show ?thesis
    using ToInt16_range [of "Finite (q * 32768)"] ToInt16_cong [of "q * 32768"]
      ToInt16_in_range [of "q * 32768"]
    by (simp add: createBlob_int16_def)
qed

text \<open>The sample 1.0 is out of range: its product 32768 wraps to -32768.\<close>

theorem createBlob_int16_sample_witness:
  "(1::nat) < length [Finite (3 / 131072), Finite 1]
   \<and> [Finite (3 / 131072), Finite 1] ! 1 = Finite 1
   \<and> createBlob_int16 [Finite (3 / 131072), Finite 1] ! 1 = - 32768
   \<and> (createBlob_int16 [Finite (3 / 131072), Finite 1] ! 1 - js_truncate (1 * 32768))
        mod 65536 = 0"
  using createBlob_int16_sample [of 1 "[Finite (3 / 131072), Finite 1]" 1]
  by (simp add: createBlob_int16_def times_32768_def ToInt16_def js_truncate_def floor_3_4)

text \<open>
  The sample \<open>3 / 131072\<close> is a 32-bit float; its product with 32768 is \<open>3 / 4\<close>, which
  rounds to 1 and is stored as 0.
\<close>

theorem createBlob_round_counterexample:
  "createBlob_int16 [Finite (3 / 131072)] \<noteq> [round (3 / 131072 * 32768 :: rat)]"
  by (simp add: createBlob_int16_def times_32768_def ToInt16_def js_truncate_def round_def
      floor_3_4 floor_5_4)

section \<open>History\<close>

text \<open>
  C5. Starting from an empty history, after 25 appends in a row exactly 20 entries
  remain; they are the entries of the last 20 appends (each with the clock readings of
  its append and the three texts handed to it), the newest first.
\<close>

theorem append_25:
  assumes "history s = []" and "length xs = 25"
  shows "length (history (appendAll xs s)) = 20
       \<and> history (appendAll xs s) =
           rev (map (\<lambda>(isoNow, locNow, entry).
                      \<lparr>e_id = isoNow, e_timestamp = locNow,
                       e_transcribedText = i_transcribedText entry,
                       e_translatedText = i_translatedText entry,
                       e_targetLanguage = i_targetLanguage entry\<rparr>) (drop 5 xs))"
proof -
  have st: "stamp = (\<lambda>(isoNow, locNow, entry).
                      \<lparr>e_id = isoNow, e_timestamp = locNow,
                       e_transcribedText = i_transcribedText entry,
                       e_translatedText = i_translatedText entry,
                       e_targetLanguage = i_targetLanguage entry\<rparr>)"
    by (rule ext) (auto simp: newEntry_def)
  have h: "history (appendAll xs s) = take 20 (rev (map stamp xs))"
    by (simp add: history_appendAll assms)
  have "take 20 (rev (map stamp xs)) = rev (drop 5 (map stamp xs))"
    by (simp add: take_rev assms)
  then have "history (appendAll xs s) = rev (map stamp (drop 5 xs))"
    using h by (simp add: drop_map)
  then show ?thesis using assms unfolding st by simp
qed

text \<open>The 25 entries numbered 0 to 24: the store holds those numbered 24 down to 5.\<close>

theorem append_25_witness:
  "history initial_app = [] \<and> length (map entry_no [0..<25]) = 25
   \<and> length (history (appendAll (map entry_no [0..<25]) initial_app)) = 20
   \<and> map (\<lambda>e. (e_id e, e_timestamp e, e_transcribedText e, e_translatedText e, e_targetLanguage e))
        (history (appendAll (map entry_no [0..<25]) initial_app))
     = map (\<lambda>k. ([48 + k], [110, 111, 119], [97 + k], [65 + k], [83, 112, 97, 110, 105, 115, 104]))
         [24, 23, 22, 21, 20, 19, 18, 17, 16, 15, 14, 13, 12, 11, 10, 9, 8, 7, 6, 5]"
  using append_25 [of initial_app "map entry_no [0..<25]"]
  by (simp add: initial_app_def upt_25 entry_no_def str_def)

text \<open>
  C6, as the code has it. An append gives the new entry the ISO string of the clock
  reading as its identifier. In a store built by appends, an append whose clock reading
  differs from the readings of all earlier appends gives an identifier that no entry
  of the store has; and where the readings of the earlier appends differ from one
  another too, the identifiers in the store stay pairwise distinct.
\<close>

theorem saveToHistory_fresh_id:
  assumes "history s = []" and "isoNow \<notin> set (map fst xs)"
  shows "history (saveToHistory isoNow locNow entry (appendAll xs s)) \<noteq> []
       \<and> e_id (hd (history (saveToHistory isoNow locNow entry (appendAll xs s)))) = isoNow
       \<and> isoNow \<notin> set (map e_id (history (appendAll xs s)))
       \<and> (distinct (map fst xs) \<longrightarrow>
            distinct (map e_id (history (saveToHistory isoNow locNow entry (appendAll xs s)))))"
proof -
  let ?old = "history (appendAll xs s)"
  have ids: "map e_id ?old = take 20 (rev (map fst xs))"
    by (rule ids_appendAll [OF assms(1)])
  have sub: "set (map e_id ?old) \<subseteq> set (map fst xs)"
    unfolding ids using set_take_subset [of 20 "rev (map fst xs)"] by simp
  have fresh: "isoNow \<notin> set (map e_id ?old)" using sub assms(2) by blast
  have h: "history (saveToHistory isoNow locNow entry (appendAll xs s))
             = newEntry isoNow locNow entry # take 19 ?old"
    by (simp add: history_saveToHistory)
  have "distinct (map e_id (newEntry isoNow locNow entry # take 19 ?old))"
    if d: "distinct (map fst xs)"
  proof -
    have "distinct (map e_id ?old)" unfolding ids using d by simp
    then have "distinct (take 19 (map e_id ?old))" by (rule distinct_take)
    moreover have "isoNow \<notin> set (take 19 (map e_id ?old))"
      using fresh set_take_subset [of 19 "map e_id ?old"] by blast
    ultimately show ?thesis by (simp add: e_id_newEntry take_map)
  qed
  then show ?thesis using fresh by (simp add: h e_id_newEntry)
qed

text \<open>
  A store of two entries, appended at two clock readings, and a third append at a third
  reading.
\<close>

theorem saveToHistory_fresh_id_witness:
  "history initial_app = []
   \<and> sample_iso3 \<notin> set (map fst [(sample_iso, sample_loc, sample_entry), (sample_iso2, sample_loc, sample_entry)])
   \<and> map e_id (history (appendAll [(sample_iso, sample_loc, sample_entry),
         (sample_iso2, sample_loc, sample_entry)] initial_app)) = [sample_iso2, sample_iso]
   \<and> e_id (hd (history (saveToHistory sample_iso3 sample_loc sample_entry
        (appendAll [(sample_iso, sample_loc, sample_entry),
           (sample_iso2, sample_loc, sample_entry)] initial_app)))) = sample_iso3
   \<and> sample_iso3 \<notin> set (map e_id (history (appendAll [(sample_iso, sample_loc, sample_entry),
         (sample_iso2, sample_loc, sample_entry)] initial_app)))
   \<and> distinct (map e_id (history (saveToHistory sample_iso3 sample_loc sample_entry
        (appendAll [(sample_iso, sample_loc, sample_entry),
           (sample_iso2, sample_loc, sample_entry)] initial_app))))"
  using saveToHistory_fresh_id [of initial_app sample_iso3
      "[(sample_iso, sample_loc, sample_entry), (sample_iso2, sample_loc, sample_entry)]"
      sample_loc sample_entry]
  by (simp add: initial_app_def sample_iso_def sample_iso2_def sample_iso3_def str_def
      history_saveToHistory e_id_newEntry)

text \<open>
  Two appends at the same clock reading: the second entry gets the identifier that the
  first one, already in the store, has.
\<close>

theorem saveToHistory_same_clock_counterexample:
  "e_id (hd (history (saveToHistory sample_iso sample_loc sample_entry
        (saveToHistory sample_iso sample_loc sample_entry initial_app))))
    \<in> set (map e_id (history (saveToHistory sample_iso sample_loc sample_entry initial_app)))"
  by (simp add: history_saveToHistory e_id_newEntry initial_app_def)

text \<open>
  C7, where the code departs from it. With a storage that refuses writes, an append
  still leaves the entry in the history, and the removal of that entry then throws
  out of the updater of \<open>deleteHistoryItem\<close>: the exception is not swallowed, and the
  history is not updated.
\<close>

theorem deleteHistoryItem_throws:
  "history (saveToHistory sample_iso sample_loc sample_entry storage_refusing)
     = [newEntry sample_iso sample_loc sample_entry]
   \<and> deleteHistoryItem sample_iso
       (saveToHistory sample_iso sample_loc sample_entry storage_refusing)
     = Inl (Error (str ''QuotaExceededError''))"
  by (simp add: saveToHistory_def deleteHistoryItem_def localStorage_setItem_def perform_def
      storage_refusing_def initial_app_def Let_def)

end
